theory Spec2Isabelle
  imports Main "HOL-Library.Sublist" "HOL-Library.AList"
begin

section \<open>JavaScript string primitives used by the daemon code\<close>

text \<open>
  A JavaScript string is a sequence of code units. The model keeps the code units below
  256, one \<^typ>\<open>char\<close> each, so that every literal of the source is a HOL string
  literal. On this range \<open>String.prototype.trim\<close> removes TAB, LF, VT, FF, CR, SPACE
  and NBSP, and \<open>toLowerCase\<close> maps \<open>A\<close>..\<open>Z\<close> and the Latin-1 capitals
  (0xC0..0xDE without 0xD7) to the code unit 32 above.
\<close>

definition isWhiteSpace :: "char \<Rightarrow> bool" where
  "isWhiteSpace c = (of_char c \<in> set [9, 10, 11, 12, 13, 32, 160 :: nat])"

definition trimStart :: "string \<Rightarrow> string" where
  "trimStart s = dropWhile isWhiteSpace s"

definition trimEnd :: "string \<Rightarrow> string" where
  "trimEnd s = rev (dropWhile isWhiteSpace (rev s))"

definition trim :: "string \<Rightarrow> string" where
  "trim s = trimEnd (trimStart s)"

definition lowerChar :: "char \<Rightarrow> char" where
  "lowerChar c =
     (let n = (of_char c :: nat) in
      if (65 \<le> n \<and> n \<le> 90) \<or> (192 \<le> n \<and> n \<le> 222 \<and> n \<noteq> 215)
      then char_of (n + 32) else c)"

definition toLowerCase :: "string \<Rightarrow> string" where
  "toLowerCase s = map lowerChar s"

text \<open>\<open>s.includes(sub)\<close>: some suffix of \<open>s\<close> starts with \<open>sub\<close>.\<close>

fun includes_str :: "string \<Rightarrow> string \<Rightarrow> bool" where
  "includes_str [] sub = (sub = [])"
| "includes_str (c # cs) sub = (prefix sub (c # cs) \<or> includes_str cs sub)"

text \<open>\<open>s.startsWith(p)\<close>, \<open>s.endsWith(p)\<close> and \<open>a || b\<close> on strings (the empty
  string is the only falsy string).\<close>

definition startsWith :: "string \<Rightarrow> string \<Rightarrow> bool" where
  "startsWith s p = prefix p s"

definition endsWith :: "string \<Rightarrow> string \<Rightarrow> bool" where
  "endsWith s p = suffix p s"

definition orElse :: "string \<Rightarrow> string \<Rightarrow> string" where
  "orElse a b = (if a = [] then b else a)"

section \<open>The command runner and the process-wide scope cache\<close>

text \<open>
  \<open>execFileUtf8("systemctl", args)\<close> resolves to the captured output and exit code and
  never rejects. The service manager is outside the program: its answer to an invocation
  is a function of the invocations made so far and of the arguments, kept in the
  \<open>host\<close> together with \<open>process.env\<close> and with \<open>fsRejects op path\<close>, which
  tells whether the \<open>node:fs\<close> operation \<open>op\<close> rejects on \<open>path\<close> for a reason
  other than a missing file (permissions, I/O errors). The \<open>world\<close> is what the module
  mutates: the module-level variable \<open>_cachedScopeArgs\<close>, the sequence of
  \<open>systemctl\<close> invocations made (oldest first), the regular files on disk with
  their content, and the lines written to the output sink.
\<close>

type_synonym cmd = "string list"

record exec_result =
  stdout :: string
  stderr :: string
  code :: int

record host =
  systemctl :: "cmd list \<Rightarrow> cmd \<Rightarrow> exec_result"
  processEnv :: "string \<rightharpoonup> string"
  fsRejects :: "string \<Rightarrow> string \<Rightarrow> bool"

text \<open>
  A line handed to the injected output sink: \<open>formatLine(label, value)\<close> and
  \<open>writeFormattedLines\<close> are rendered outside this module, so the sink records the
  label and the value; other writes are recorded as their text.
\<close>

datatype out_line = Formatted string string | Plain string

record world =
  cachedScopeArgs :: "string list option"
  calls :: "cmd list"
  files :: "string \<rightharpoonup> string"
  written :: "out_line list"

definition execSystemctl :: "host \<Rightarrow> cmd \<Rightarrow> world \<Rightarrow> exec_result \<times> world" where
  "execSystemctl h args w = (systemctl h (calls w) args, w\<lparr>calls := calls w @ [args]\<rparr>)"

text \<open>The two scope decisions, as the argument lists the source returns.\<close>

definition UserSession :: "string list" where
  "UserSession = [''--user'']"

definition SystemWide :: "string list" where
  "SystemWide = []"

definition busFailure :: "string \<Rightarrow> bool" where
  "busFailure detail =
     (includes_str detail ''failed to connect'' \<or>
      includes_str detail ''not been booted'' \<or>
      includes_str detail ''no such file or directory'' \<or>
      includes_str detail ''not supported'')"

definition resolveSystemctlScopeArgs :: "host \<Rightarrow> world \<Rightarrow> string list \<times> world" where
  "resolveSystemctlScopeArgs h w =
     (case cachedScopeArgs w of
        Some cached \<Rightarrow> (cached, w)
      | None \<Rightarrow>
          let explicit = map_option (\<lambda>v. toLowerCase (trim v)) (processEnv h ''OPENCLAW_SYSTEMD_SCOPE'') in
          if explicit = Some ''system'' then ([], w\<lparr>cachedScopeArgs := Some []\<rparr>)
          else if explicit = Some ''user'' then ([''--user''], w\<lparr>cachedScopeArgs := Some [''--user'']\<rparr>)
          else
            let (res, w1) = execSystemctl h [''--user'', ''status''] w in
            if code res = 0 then ([''--user''], w1\<lparr>cachedScopeArgs := Some [''--user'']\<rparr>)
            else
              let detail = toLowerCase (stderr res @ '' '' @ stdout res);
                  r = (if busFailure detail then [] else [''--user''])
              in (r, w1\<lparr>cachedScopeArgs := Some r\<rparr>))"

definition scopedSystemctl :: "host \<Rightarrow> cmd \<Rightarrow> world \<Rightarrow> exec_result \<times> world" where
  "scopedSystemctl h args w =
     (let (scope, w1) = resolveSystemctlScopeArgs h w in execSystemctl h (scope @ args) w1)"

section \<open>Repository code and library code outside this module\<close>

text \<open>
  \<open>systemd.ts\<close> imports the following from files that are not part of the sources
  at hand; they are parameters of the model, collected in \<open>deps\<close>, and every theorem
  about \<open>systemd.ts\<close> holds for all of them:
  \<^item> \<open>resolveGatewaySystemdServiceName(profile)\<close>, \<open>resolveGatewayServiceDescription\<close>
    and the list \<open>LEGACY_GATEWAY_SYSTEMD_SERVICE_NAMES\<close> of \<open>constants.ts\<close>;
  \<^item> \<open>posixHomeDir env\<close>, which stands for \<open>toPosixPath(resolveHomeDir(env))\<close> and is
    taken to return a path for every environment;
  \<^item> \<open>path.posix.join\<close> and \<open>path.dirname\<close> of \<open>node:path\<close>;
  \<^item> \<open>parseKeyValueOutput(output, separator)\<close> of \<open>runtime-parse.ts\<close>;
  \<^item> \<open>buildSystemdUnit\<close>, \<open>parseSystemdEnvAssignment\<close> and \<open>parseSystemdExecStart\<close>
    of \<open>systemd-unit.ts\<close>. The two parsers run inside a \<open>try\<close> block, so the model
    lets them throw.
  A JavaScript object with string values is an association list in insertion order
  (that integer-like keys are enumerated first is not modelled).
\<close>

type_synonym env = "string \<rightharpoonup> string"

datatype 'a outcome = Throws | Returns 'a

record deps =
  resolveGatewaySystemdServiceName :: "string option \<Rightarrow> string"
  resolveGatewayServiceDescription ::
    "env \<Rightarrow> (string \<times> string) list option \<Rightarrow> string option \<Rightarrow> string"
  LEGACY_GATEWAY_SYSTEMD_SERVICE_NAMES :: "string list"
  posixHomeDir :: "env \<Rightarrow> string"
  pathPosixJoin :: "string list \<Rightarrow> string"
  pathDirname :: "string \<Rightarrow> string"
  parseKeyValueOutput :: "string \<Rightarrow> string \<Rightarrow> (string \<rightharpoonup> string)"
  buildSystemdUnit ::
    "string \<Rightarrow> string list \<Rightarrow> string option \<Rightarrow> (string \<times> string) list option \<Rightarrow> string"
  parseSystemdEnvAssignment :: "string \<Rightarrow> (string \<times> string) option outcome"
  parseSystemdExecStart :: "string \<Rightarrow> string list outcome"

section \<open>Unit identity and unit path\<close>

definition resolveSystemdUnitPathForName :: "deps \<Rightarrow> env \<Rightarrow> string \<Rightarrow> string" where
  "resolveSystemdUnitPathForName d e name =
     pathPosixJoin d [posixHomeDir d e, ''.config'', ''systemd'', ''user'', name @ ''.service'']"

text \<open>\<open>override.slice(0, -".service".length)\<close> drops the last eight code units.\<close>

definition resolveSystemdServiceName :: "deps \<Rightarrow> env \<Rightarrow> string" where
  "resolveSystemdServiceName d e =
     (case map_option trim (e ''OPENCLAW_SYSTEMD_UNIT'') of
        Some override \<Rightarrow>
          if override = [] then resolveGatewaySystemdServiceName d (e ''OPENCLAW_PROFILE'')
          else if endsWith override ''.service'' then take (length override - 8) override
          else override
      | None \<Rightarrow> resolveGatewaySystemdServiceName d (e ''OPENCLAW_PROFILE''))"

definition resolveSystemdUnitPath :: "deps \<Rightarrow> env \<Rightarrow> string" where
  "resolveSystemdUnitPath d e = resolveSystemdUnitPathForName d e (resolveSystemdServiceName d e)"

section \<open>Reading the unit file back\<close>

record config =
  programArguments :: "string list"
  workingDirectory :: "string option"
  environment :: "(string \<times> string) list option"
  sourcePath :: "string option"

text \<open>\<open>content.split("\n")\<close>: the pieces between line feeds, at least one.\<close>

fun splitOn :: "char \<Rightarrow> string \<Rightarrow> string list" where
  "splitOn sep [] = [[]]"
| "splitOn sep (c # cs) =
     (if c = sep then [] # splitOn sep cs
      else (case splitOn sep cs of
              [] \<Rightarrow> [[c]]
            | piece # pieces \<Rightarrow> (c # piece) # pieces))"

definition LF :: char where
  "LF = CHR 0x0A"

text \<open>
  \<open>environment[key] = value\<close> on an object created by \<open>{}\<close>: a new key is appended, an
  existing key keeps its place, and the key \<open>__proto__\<close> reaches the prototype setter,
  which ignores a string, so that no own property is created.
\<close>

definition assignProperty :: "string \<Rightarrow> string \<Rightarrow> (string \<times> string) list \<Rightarrow> (string \<times> string) list" where
  "assignProperty k v obj = (if k = ''__proto__'' then obj else AList.update k v obj)"

record scan_state =
  execStart :: string
  scanWorkingDirectory :: string
  scanEnvironment :: "(string \<times> string) list"

definition scanLine :: "deps \<Rightarrow> scan_state \<Rightarrow> string \<Rightarrow> scan_state outcome" where
  "scanLine d st rawLine =
     (let line = trim rawLine in
      if line = [] \<or> startsWith line ''#'' then Returns st
      else if startsWith line ''ExecStart='' then
        Returns (st\<lparr>execStart := trim (drop (length ''ExecStart='') line)\<rparr>)
      else if startsWith line ''WorkingDirectory='' then
        Returns (st\<lparr>scanWorkingDirectory := trim (drop (length ''WorkingDirectory='') line)\<rparr>)
      else if startsWith line ''Environment='' then
        (case parseSystemdEnvAssignment d (trim (drop (length ''Environment='') line)) of
           Throws \<Rightarrow> Throws
         | Returns None \<Rightarrow> Returns st
         | Returns (Some (k, v)) \<Rightarrow>
             Returns (st\<lparr>scanEnvironment := assignProperty k v (scanEnvironment st)\<rparr>))
      else Returns st)"

fun scanLines :: "deps \<Rightarrow> scan_state \<Rightarrow> string list \<Rightarrow> scan_state outcome" where
  "scanLines d st [] = Returns st"
| "scanLines d st (rawLine # rest) =
     (case scanLine d st rawLine of
        Throws \<Rightarrow> Throws
      | Returns st' \<Rightarrow> scanLines d st' rest)"

text \<open>
  The body of the \<open>try\<close> block, on the text of a unit file: \<open>None\<close> is the
  \<open>null\<close> it returns, whether by \<open>return null\<close> or through \<open>catch\<close>.
\<close>

definition decodeUnit :: "deps \<Rightarrow> string \<Rightarrow> string \<Rightarrow> config option" where
  "decodeUnit d unitPath content =
     (case scanLines d \<lparr>execStart = [], scanWorkingDirectory = [], scanEnvironment = []\<rparr>
             (splitOn LF content) of
        Throws \<Rightarrow> None
      | Returns st \<Rightarrow>
          if execStart st = [] then None
          else
            (case parseSystemdExecStart d (execStart st) of
               Throws \<Rightarrow> None
             | Returns args \<Rightarrow>
                 Some \<lparr>programArguments = args,
                       workingDirectory =
                         (if scanWorkingDirectory st = [] then None else Some (scanWorkingDirectory st)),
                       environment =
                         (if scanEnvironment st = [] then None else Some (scanEnvironment st)),
                       sourcePath = Some unitPath\<rparr>))"

text \<open>\<open>fs.readFile(path, "utf8")\<close>: \<open>None\<close> when it rejects.\<close>

definition readFile :: "host \<Rightarrow> world \<Rightarrow> string \<Rightarrow> string option" where
  "readFile h w path = (if fsRejects h ''readFile'' path then None else files w path)"

definition readSystemdServiceExecStart :: "deps \<Rightarrow> host \<Rightarrow> world \<Rightarrow> env \<Rightarrow> config option" where
  "readSystemdServiceExecStart d h w e =
     (let unitPath = resolveSystemdUnitPath d e in
      case readFile h w unitPath of
        None \<Rightarrow> None
      | Some content \<Rightarrow> decodeUnit d unitPath content)"

section \<open>Parsing the output of \<open>systemctl show\<close>\<close>

text \<open>
  A JavaScript number that \<open>Number.parseInt\<close> can return: \<open>NaN\<close>, an infinity, or a
  finite double holding an integer (\<open>-0\<close> is \<open>Num 0\<close>: the two are equal under
  \<open>===\<close> and \<open>>\<close>).
\<close>

datatype jsnum = NaN | Num int | PosInfinity | NegInfinity

fun bitLength :: "nat \<Rightarrow> nat" where
  "bitLength n = (if n = 0 then 0 else Suc (bitLength (n div 2)))"

text \<open>
  The double nearest to a natural number: exact below \<open>2^53\<close>, otherwise rounded to
  53 significant bits, ties to even, and infinite from \<open>2^1024\<close> on.
\<close>

definition toDouble :: "nat \<Rightarrow> nat option" where
  "toDouble m =
     (if m < 2 ^ 53 then Some m
      else
        let sh = bitLength m - 53;
            q = m div 2 ^ sh;
            r = m mod 2 ^ sh;
            half = 2 ^ (sh - 1);
            q' = (if half < r \<or> (r = half \<and> odd q) then q + 1 else q);
            v = q' * 2 ^ sh
        in if v < 2 ^ 1024 then Some v else None)"

definition isDigit :: "char \<Rightarrow> bool" where
  "isDigit c = (48 \<le> (of_char c :: nat) \<and> (of_char c :: nat) \<le> 57)"

definition digitsValue :: "string \<Rightarrow> nat" where
  "digitsValue ds = foldl (\<lambda>acc c. 10 * acc + (of_char c - 48)) 0 ds"

text \<open>
  \<open>Number.parseInt(s, 10)\<close>: leading white space is skipped, one sign is read, then
  the longest run of decimal digits; whatever follows the run is ignored, and an empty
  run gives \<open>NaN\<close>. The number is the double nearest to the integer the run denotes
  (ECMAScript lets an implementation round a run of more than 20 digits less exactly).
\<close>

definition stripSign :: "string \<Rightarrow> string" where
  "stripSign s = (case s of [] \<Rightarrow> [] | c # cs \<Rightarrow> if c = CHR ''-'' \<or> c = CHR ''+'' then cs else s)"

definition leadingDigits :: "string \<Rightarrow> string" where
  "leadingDigits s = takeWhile isDigit (stripSign (trimStart s))"

definition parseInt10 :: "string \<Rightarrow> jsnum" where
  "parseInt10 s =
     (let neg = (case trimStart s of [] \<Rightarrow> False | c # _ \<Rightarrow> c = CHR ''-'');
          ds = leadingDigits s
      in if ds = [] then NaN
         else (case toDouble (digitsValue ds) of
                 None \<Rightarrow> (if neg then NegInfinity else PosInfinity)
               | Some v \<Rightarrow> Num (if neg then - int v else int v)))"

text \<open>
  The spec's "strict integer validation", for comparison with \<open>parseInt10\<close>: the whole
  value is one optional sign followed by decimal digits, at least one.
\<close>

definition strictInteger :: "string \<Rightarrow> bool" where
  "strictInteger v = (stripSign v \<noteq> [] \<and> list_all isDigit (stripSign v))"

record SystemdServiceInfo =
  activeState :: "string option"
  subState :: "string option"
  mainPid :: "int option"
  execMainStatus :: "int option"
  execMainCode :: "string option"

text \<open>\<open>if (x)\<close> on a \<open>string | undefined\<close>: only a non-empty string passes.\<close>

definition truthy :: "string option \<Rightarrow> string option" where
  "truthy x = (case x of None \<Rightarrow> None | Some v \<Rightarrow> if v = [] then None else Some v)"

definition parseSystemdShow :: "deps \<Rightarrow> string \<Rightarrow> SystemdServiceInfo" where
  "parseSystemdShow d output =
     (let entries = parseKeyValueOutput d output ''='' in
      \<lparr>activeState = truthy (entries ''activestate''),
       subState = truthy (entries ''substate''),
       mainPid =
         (case truthy (entries ''mainpid'') of
            None \<Rightarrow> None
          | Some v \<Rightarrow> (case parseInt10 v of Num pid \<Rightarrow> if pid > 0 then Some pid else None | _ \<Rightarrow> None)),
       execMainStatus =
         (case truthy (entries ''execmainstatus'') of
            None \<Rightarrow> None
          | Some v \<Rightarrow> (case parseInt10 v of Num st \<Rightarrow> Some st | _ \<Rightarrow> None)),
       execMainCode = truthy (entries ''execmaincode'')\<rparr>)"

section \<open>Availability of the service manager\<close>

text \<open>
  What the module throws: an \<open>Error\<close> with its message, or the rejection of a
  \<open>node:fs\<close> operation, kept as the operation and the path.
\<close>

datatype error = Error string | FsError string string

text \<open>\<open>String(err)\<close> for an \<open>Error\<close>: the name, a colon and the message, or the name
  alone when the message is empty. Only errors of \<open>assertSystemdAvailable\<close> reach it.\<close>

fun errorString :: "error \<Rightarrow> string" where
  "errorString (Error msg) = (if msg = [] then ''Error'' else ''Error: '' @ msg)"
| "errorString (FsError op path) = ''Error: '' @ op @ '' '' @ path"

definition assertSystemdAvailable :: "host \<Rightarrow> world \<Rightarrow> (error + unit) \<times> world" where
  "assertSystemdAvailable h w =
     (let (scope, w1) = resolveSystemctlScopeArgs h w;
          scopeLabel = (if scope \<noteq> [] then ''user'' else ''system'');
          (res, w2) = scopedSystemctl h [''status''] w1
      in if code res = 0 then (Inr (), w2)
         else
           let detail = orElse (stderr res) (stdout res) in
           if includes_str (toLowerCase detail) ''not found''
           then (Inl (Error ''systemctl not available; systemd services are required on Linux.''), w2)
           else (Inl (Error (trim (''systemctl ('' @ scopeLabel @ '') unavailable: '' @
                                    orElse detail ''unknown error''))), w2))"

section \<open>Install, uninstall and control\<close>

definition fileExists :: "host \<Rightarrow> world \<Rightarrow> string \<Rightarrow> bool" where
  "fileExists h w path = (files w path \<noteq> None \<and> \<not> fsRejects h ''access'' path)"

text \<open>The \<open>try\<close> block that backs the existing unit file up; any failure in it is
  swallowed and leaves \<open>backedUp\<close> false.\<close>

definition backupUnit :: "host \<Rightarrow> string \<Rightarrow> world \<Rightarrow> bool \<times> world" where
  "backupUnit h unitPath w =
     (case files w unitPath of
        None \<Rightarrow> (False, w)
      | Some old \<Rightarrow>
          if fsRejects h ''access'' unitPath \<or> fsRejects h ''copyFile'' (unitPath @ ''.bak'')
          then (False, w)
          else (True, w\<lparr>files := (files w)(unitPath @ ''.bak'' \<mapsto> old)\<rparr>))"

text \<open>The three manager steps after the unit file is written, each aborting the rest
  when it exits non-zero.\<close>

definition stepFailed :: "string \<Rightarrow> exec_result \<Rightarrow> error" where
  "stepFailed step res =
     Error (trim (''systemctl '' @ step @ '' failed: '' @ orElse (stderr res) (stdout res)))"

definition activateUnit :: "host \<Rightarrow> string \<Rightarrow> world \<Rightarrow> (error + unit) \<times> world" where
  "activateUnit h unitName w =
     (let (reload, w1) = scopedSystemctl h [''daemon-reload''] w in
      if code reload \<noteq> 0 then (Inl (stepFailed ''daemon-reload'' reload), w1)
      else
        let (enable, w2) = scopedSystemctl h [''enable'', unitName] w1 in
        if code enable \<noteq> 0 then (Inl (stepFailed ''enable'' enable), w2)
        else
          let (restart, w3) = scopedSystemctl h [''restart'', unitName] w2 in
          if code restart \<noteq> 0 then (Inl (stepFailed ''restart'' restart), w3)
          else (Inr (), w3))"

definition installSystemdService ::
  "deps \<Rightarrow> host \<Rightarrow> env \<Rightarrow> string list \<Rightarrow> string option \<Rightarrow> (string \<times> string) list option \<Rightarrow>
   string option \<Rightarrow> world \<Rightarrow> (error + string) \<times> world" where
  "installSystemdService d h e args wd envVars description w =
     (case assertSystemdAvailable h w of
        (Inl err, w1) \<Rightarrow> (Inl err, w1)
      | (Inr _, w1) \<Rightarrow>
          let unitPath = resolveSystemdUnitPath d e in
          if fsRejects h ''mkdir'' (pathDirname d unitPath)
          then (Inl (FsError ''mkdir'' (pathDirname d unitPath)), w1)
          else
            let (backedUp, w2) = backupUnit h unitPath w1;
                serviceDescription = resolveGatewayServiceDescription d e envVars description;
                unit = buildSystemdUnit d serviceDescription args wd envVars
            in
            if fsRejects h ''writeFile'' unitPath then (Inl (FsError ''writeFile'' unitPath), w2)
            else
              let w3 = w2\<lparr>files := (files w2)(unitPath \<mapsto> unit)\<rparr>;
                  serviceName = resolveGatewaySystemdServiceName d (e ''OPENCLAW_PROFILE'');
                  unitName = serviceName @ ''.service''
              in
              (case activateUnit h unitName w3 of
                 (Inl err, w4) \<Rightarrow> (Inl err, w4)
               | (Inr _, w4) \<Rightarrow>
                   (Inr unitPath,
                    w4\<lparr>written := written w4 @
                          (Formatted ''Installed systemd service'' unitPath #
                           (if backedUp
                            then [Formatted ''Previous unit backed up to'' (unitPath @ ''.bak'')]
                            else []))\<rparr>)))"

definition uninstallSystemdService :: "deps \<Rightarrow> host \<Rightarrow> env \<Rightarrow> world \<Rightarrow> (error + unit) \<times> world" where
  "uninstallSystemdService d h e w =
     (case assertSystemdAvailable h w of
        (Inl err, w1) \<Rightarrow> (Inl err, w1)
      | (Inr _, w1) \<Rightarrow>
          let serviceName = resolveGatewaySystemdServiceName d (e ''OPENCLAW_PROFILE'');
              unitName = serviceName @ ''.service'';
              (_, w2) = scopedSystemctl h [''disable'', ''--now'', unitName] w1;
              unitPath = resolveSystemdUnitPath d e
          in
          if files w2 unitPath \<noteq> None \<and> \<not> fsRejects h ''unlink'' unitPath
          then (Inr (), w2\<lparr>files := (files w2)(unitPath := None),
                            written := written w2 @ [Formatted ''Removed systemd service'' unitPath]\<rparr>)
          else (Inr (), w2\<lparr>written := written w2 @
                               [Plain (''Systemd service not found at '' @ unitPath @ [LF])]\<rparr>))"

definition runSystemdServiceAction ::
  "deps \<Rightarrow> host \<Rightarrow> env \<Rightarrow> string \<Rightarrow> string \<Rightarrow> world \<Rightarrow> (error + unit) \<times> world" where
  "runSystemdServiceAction d h e action label w =
     (case assertSystemdAvailable h w of
        (Inl err, w1) \<Rightarrow> (Inl err, w1)
      | (Inr _, w1) \<Rightarrow>
          let serviceName = resolveSystemdServiceName d e;
              unitName = serviceName @ ''.service'';
              (res, w2) = scopedSystemctl h [action, unitName] w1
          in
          if code res \<noteq> 0 then (Inl (stepFailed action res), w2)
          else (Inr (), w2\<lparr>written := written w2 @ [Formatted label unitName]\<rparr>))"

definition stopSystemdService :: "deps \<Rightarrow> host \<Rightarrow> env \<Rightarrow> world \<Rightarrow> (error + unit) \<times> world" where
  "stopSystemdService d h e w = runSystemdServiceAction d h e ''stop'' ''Stopped systemd service'' w"

definition restartSystemdService :: "deps \<Rightarrow> host \<Rightarrow> env \<Rightarrow> world \<Rightarrow> (error + unit) \<times> world" where
  "restartSystemdService d h e w =
     runSystemdServiceAction d h e ''restart'' ''Restarted systemd service'' w"

definition isSystemdServiceEnabled :: "deps \<Rightarrow> host \<Rightarrow> env \<Rightarrow> world \<Rightarrow> (error + bool) \<times> world" where
  "isSystemdServiceEnabled d h e w =
     (case assertSystemdAvailable h w of
        (Inl err, w1) \<Rightarrow> (Inl err, w1)
      | (Inr _, w1) \<Rightarrow>
          let serviceName = resolveSystemdServiceName d e;
              unitName = serviceName @ ''.service'';
              (res, w2) = scopedSystemctl h [''is-enabled'', unitName] w1
          in (Inr (code res = 0), w2))"

section \<open>The runtime status\<close>

text \<open>
  \<open>GatewayServiceRuntime\<close>, as \<open>readSystemdServiceRuntime\<close> fills it; a field the
  returned object does not have is \<open>None\<close>. Its field \<open>subState\<close> is
  \<open>subState'\<close> here, beside the \<open>subState\<close> of \<open>SystemdServiceInfo\<close>.
\<close>

datatype status = Running | Stopped | Unknown

record runtime =
  status :: status
  state :: "string option"
  subState' :: "string option"
  pid :: "int option"
  lastExitStatus :: "int option"
  lastExitReason :: "string option"
  detail :: "string option"
  missingUnit :: "bool option"

definition showArgs :: "string \<Rightarrow> cmd" where
  "showArgs unitName =
     [''show'', unitName, ''--no-page'', ''--property'',
      ''ActiveState,SubState,MainPID,ExecMainStatus,ExecMainCode'']"

definition readSystemdServiceRuntime :: "deps \<Rightarrow> host \<Rightarrow> env \<Rightarrow> world \<Rightarrow> runtime \<times> world" where
  "readSystemdServiceRuntime d h e w =
     (case assertSystemdAvailable h w of
        (Inl err, w1) \<Rightarrow>
          (\<lparr>status = Unknown, state = None, subState' = None, pid = None, lastExitStatus = None,
            lastExitReason = None, detail = Some (errorString err), missingUnit = None\<rparr>, w1)
      | (Inr _, w1) \<Rightarrow>
          let serviceName = resolveSystemdServiceName d e;
              unitName = serviceName @ ''.service'';
              (res, w2) = scopedSystemctl h (showArgs unitName) w1
          in
          if code res \<noteq> 0 then
            let text = trim (orElse (stderr res) (stdout res));
                missing = includes_str (toLowerCase text) ''not found''
            in (\<lparr>status = (if missing then Stopped else Unknown), state = None, subState' = None,
                 pid = None, lastExitStatus = None, lastExitReason = None,
                 detail = (if text = [] then None else Some text), missingUnit = Some missing\<rparr>, w2)
          else
            let parsed = parseSystemdShow d (stdout res);
                lowered = map_option toLowerCase (activeState parsed)
            in (\<lparr>status = (if lowered = Some ''active'' then Running
                           else if truthy lowered \<noteq> None then Stopped else Unknown),
                 state = activeState parsed, subState' = subState parsed, pid = mainPid parsed,
                 lastExitStatus = execMainStatus parsed, lastExitReason = execMainCode parsed,
                 detail = None, missingUnit = None\<rparr>, w2))"

section \<open>Legacy units\<close>

record LegacySystemdUnit =
  name :: string
  unitPath :: string
  enabled :: bool
  exists :: bool

definition isSystemctlAvailable :: "host \<Rightarrow> world \<Rightarrow> bool \<times> world" where
  "isSystemctlAvailable h w =
     (let (res, w1) = scopedSystemctl h [''status''] w in
      if code res = 0 then (True, w1)
      else (\<not> includes_str (toLowerCase (orElse (stderr res) (stdout res))) ''not found'', w1))"

text \<open>The body of the loop over the legacy names, and the loop.\<close>

definition probeLegacyUnit ::
  "deps \<Rightarrow> host \<Rightarrow> env \<Rightarrow> bool \<Rightarrow> string \<Rightarrow> world \<Rightarrow> LegacySystemdUnit list \<times> world" where
  "probeLegacyUnit d h e systemctlAvailable nm w =
     (let path = resolveSystemdUnitPathForName d e nm;
          ex = fileExists h w path;
          (en, w1) =
            (if systemctlAvailable
             then (let (res, w') = scopedSystemctl h [''is-enabled'', nm @ ''.service''] w
                   in (code res = 0, w'))
             else (False, w))
      in (if ex \<or> en then [\<lparr>name = nm, unitPath = path, enabled = en, exists = ex\<rparr>] else [], w1))"

fun legacyLoop ::
  "deps \<Rightarrow> host \<Rightarrow> env \<Rightarrow> bool \<Rightarrow> string list \<Rightarrow> world \<Rightarrow> LegacySystemdUnit list \<times> world" where
  "legacyLoop d h e systemctlAvailable [] w = ([], w)"
| "legacyLoop d h e systemctlAvailable (nm # rest) w =
     (let (found, w1) = probeLegacyUnit d h e systemctlAvailable nm w;
          (more, w2) = legacyLoop d h e systemctlAvailable rest w1
      in (found @ more, w2))"

definition findLegacySystemdUnits :: "deps \<Rightarrow> host \<Rightarrow> env \<Rightarrow> world \<Rightarrow> LegacySystemdUnit list \<times> world" where
  "findLegacySystemdUnits d h e w =
     (let (systemctlAvailable, w1) = isSystemctlAvailable h w
      in legacyLoop d h e systemctlAvailable (LEGACY_GATEWAY_SYSTEMD_SERVICE_NAMES d) w1)"

section \<open>Calling the scope resolver repeatedly\<close>

text \<open>A sequence of calls in one process, each under its own host (the environment
  variables and the manager's answers may have changed in between).\<close>

fun resolveMany :: "host list \<Rightarrow> world \<Rightarrow> string list list \<times> world" where
  "resolveMany [] w = ([], w)"
| "resolveMany (h # hs) w =
     (let (r, w1) = resolveSystemctlScopeArgs h w;
          (rs, w2) = resolveMany hs w1
      in (r # rs, w2))"

section \<open>The codec of \<open>systemd-unit.ts\<close> and the parser of \<open>runtime-parse.ts\<close>\<close>

text \<open>\<open>pieces.join(sep)\<close>.\<close>

fun joinWith :: "string \<Rightarrow> string list \<Rightarrow> string" where
  "joinWith sep [] = []"
| "joinWith sep [x] = x"
| "joinWith sep (x # y # ys) = x @ sep @ joinWith sep (y # ys)"

definition DQUOTE :: char where
  "DQUOTE = CHR 0x22"

definition SQUOTE :: char where
  "SQUOTE = CHR 0x27"

definition BACKSLASH :: char where
  "BACKSLASH = CHR 0x5C"

text \<open>
  Modelled from the spec: the quoting that \<open>buildSystemdUnit\<close> of \<open>systemd-unit.ts\<close>
  applies to an argument. The spec: "any argument containing whitespace or quote
  characters is wrapped and escaped so that re-tokenizing reproduces the original
  argument exactly". The wrapping is a pair of double quotes; the escaping puts a
  backslash before a double quote and before a backslash. Any other argument is emitted
  as it is.
\<close>

definition needsQuoting :: "string \<Rightarrow> bool" where
  "needsQuoting a = list_ex (\<lambda>c. isWhiteSpace c \<or> c = DQUOTE \<or> c = SQUOTE) a"

fun escapeChars :: "string \<Rightarrow> string" where
  "escapeChars [] = []"
| "escapeChars (c # cs) =
     (if c = DQUOTE \<or> c = BACKSLASH then BACKSLASH # c # escapeChars cs else c # escapeChars cs)"

definition quoteArg :: "string \<Rightarrow> string" where
  "quoteArg a = (if needsQuoting a then DQUOTE # escapeChars a @ [DQUOTE] else a)"

text \<open>
  Modelled from the spec: \<open>buildSystemdUnit\<close> of \<open>systemd-unit.ts\<close>. The spec: "emits a
  unit with a \<open>Description=\<close>, a single \<open>ExecStart=\<close> line built by joining
  \<open>programArguments\<close> with shell-safe quoting, an optional \<open>WorkingDirectory=\<close>, and one
  \<open>Environment=\<close> line per entry rendered as \<open>KEY=VALUE\<close> with the value quoted if it
  contains whitespace"; "written with no comments". The lines are joined by line feeds.
\<close>

definition envLine :: "string \<times> string \<Rightarrow> string" where
  "envLine kv =
     ''Environment='' @ fst kv @ ''='' @
     (if list_ex isWhiteSpace (snd kv) then DQUOTE # escapeChars (snd kv) @ [DQUOTE] else snd kv)"

definition unitLines ::
  "string \<Rightarrow> string list \<Rightarrow> string option \<Rightarrow> (string \<times> string) list option \<Rightarrow> string list" where
  "unitLines description args wd envVars =
     [''Description='' @ description, ''ExecStart='' @ joinWith '' '' (map quoteArg args)] @
     (case wd of None \<Rightarrow> [] | Some dir \<Rightarrow> [''WorkingDirectory='' @ dir]) @
     (case envVars of None \<Rightarrow> [] | Some kvs \<Rightarrow> map envLine kvs)"

definition buildSystemdUnitSpec ::
  "string \<Rightarrow> string list \<Rightarrow> string option \<Rightarrow> (string \<times> string) list option \<Rightarrow> string" where
  "buildSystemdUnitSpec description args wd envVars =
     joinWith [LF] (unitLines description args wd envVars)"

text \<open>
  Modelled from the spec: \<open>parseSystemdExecStart\<close> of \<open>systemd-unit.ts\<close>. The spec: the
  "\<open>ExecStart=\<close> value is tokenized honoring shell-style quoting and escape sequences".
  One pass over the characters: a backslash makes the next character literal, a double
  quote opens or closes a quoted stretch, white space outside quotes ends the current
  token, and an empty token is not emitted.
\<close>

fun tokenLoop :: "string \<Rightarrow> string list \<Rightarrow> string \<Rightarrow> bool \<Rightarrow> bool \<Rightarrow> string list" where
  "tokenLoop [] args cur inQuotes escapeNext = (if cur = [] then args else args @ [cur])"
| "tokenLoop (c # cs) args cur inQuotes escapeNext =
     (if escapeNext then tokenLoop cs args (cur @ [c]) inQuotes False
      else if c = BACKSLASH then tokenLoop cs args cur inQuotes True
      else if c = DQUOTE then tokenLoop cs args cur (\<not> inQuotes) False
      else if \<not> inQuotes \<and> isWhiteSpace c then
        (if cur = [] then tokenLoop cs args cur inQuotes False
         else tokenLoop cs (args @ [cur]) [] inQuotes False)
      else tokenLoop cs args (cur @ [c]) inQuotes False)"

definition parseSystemdExecStartSpec :: "string \<Rightarrow> string list" where
  "parseSystemdExecStartSpec v = tokenLoop v [] [] False False"

text \<open>
  Modelled from the spec: \<open>parseSystemdEnvAssignment\<close> of \<open>systemd-unit.ts\<close>, the
  "decoding of environment assignments" \<open>KEY=VALUE\<close>. The key is the text before the
  first \<open>=\<close>; an assignment without \<open>=\<close> or with an empty key gives \<open>null\<close>; the
  value is the text after it, unquoted as a token of the start command is.
\<close>

definition parseSystemdEnvAssignmentSpec :: "string \<Rightarrow> (string \<times> string) option" where
  "parseSystemdEnvAssignmentSpec raw =
     (let k = takeWhile (\<lambda>c. c \<noteq> CHR ''='') raw;
          rest = dropWhile (\<lambda>c. c \<noteq> CHR ''='') raw
      in if rest = [] \<or> k = [] then None
         else Some (k, (case parseSystemdExecStartSpec (tl rest) of [] \<Rightarrow> [] | t # _ \<Rightarrow> t)))"

text \<open>
  Modelled from the spec: \<open>parseKeyValueOutput\<close> of \<open>runtime-parse.ts\<close>. The spec: "each
  line \<open>Key=Value\<close>; builds a mapping with lower-cased keys". A line without the
  separator adds nothing, and a later line overrides an earlier one with the same key.
\<close>

fun breakOn :: "string \<Rightarrow> string \<Rightarrow> (string \<times> string) option" where
  "breakOn sep [] = (if sep = [] then Some ([], []) else None)"
| "breakOn sep (c # cs) =
     (if prefix sep (c # cs) then Some ([], drop (length sep) (c # cs))
      else map_option (\<lambda>(a, b). (c # a, b)) (breakOn sep cs))"

fun keyValueLines :: "string \<Rightarrow> string list \<Rightarrow> (string \<rightharpoonup> string) \<Rightarrow> (string \<rightharpoonup> string)" where
  "keyValueLines sep [] m = m"
| "keyValueLines sep (l # ls) m =
     (case breakOn sep l of
        None \<Rightarrow> keyValueLines sep ls m
      | Some (k, v) \<Rightarrow> keyValueLines sep ls (m(toLowerCase k \<mapsto> v)))"

definition parseKeyValueOutputSpec :: "string \<Rightarrow> string \<Rightarrow> (string \<rightharpoonup> string)" where
  "parseKeyValueOutputSpec output sep = keyValueLines sep (splitOn LF output) Map.empty"

text \<open>
  An instance of the parameters, for running the model on concrete inputs: the codec and
  the key/value parser above, a profile-derived unit name, a home directory read from
  \<open>HOME\<close>, and path functions that are right on paths without \<open>.\<close>, \<open>..\<close> or
  repeated slashes. The general theorems do not depend on it.
\<close>

definition exampleDeps :: deps where
  "exampleDeps =
     \<lparr>resolveGatewaySystemdServiceName =
        (\<lambda>profile. case profile of None \<Rightarrow> ''openclaw-gateway'' | Some p \<Rightarrow> ''openclaw-gateway-'' @ p),
      resolveGatewayServiceDescription =
        (\<lambda>e envVars description. case description of None \<Rightarrow> ''OpenClaw Gateway'' | Some t \<Rightarrow> t),
      LEGACY_GATEWAY_SYSTEMD_SERVICE_NAMES = [''clawdbot-gateway'', ''moltbot-gateway''],
      posixHomeDir = (\<lambda>e. case e ''HOME'' of None \<Rightarrow> ''/root'' | Some dir \<Rightarrow> dir),
      pathPosixJoin = joinWith ''/'',
      pathDirname = (\<lambda>path. rev (tl (dropWhile (\<lambda>c. c \<noteq> CHR ''/'') (rev path)))),
      parseKeyValueOutput = parseKeyValueOutputSpec,
      buildSystemdUnit = buildSystemdUnitSpec,
      parseSystemdEnvAssignment = (\<lambda>raw. Returns (parseSystemdEnvAssignmentSpec raw)),
      parseSystemdExecStart = (\<lambda>v. Returns (parseSystemdExecStartSpec v))\<rparr>"

text \<open>A manager that answers every invocation with the same result, a host without file
  system faults, and a fresh process.\<close>

definition constantHost :: "exec_result \<Rightarrow> host" where
  "constantHost res =
     \<lparr>systemctl = (\<lambda>history args. res), processEnv = Map.empty, fsRejects = (\<lambda>op path. False)\<rparr>"

definition freshWorld :: "(string \<rightharpoonup> string) \<Rightarrow> world" where
  "freshWorld fs = \<lparr>cachedScopeArgs = None, calls = [], files = fs, written = []\<rparr>"

section \<open>Facts about the string primitives\<close>

lemma includes_str_sublist: "includes_str s sub \<longleftrightarrow> sublist sub s"
  by (induction s) (auto simp: sublist_Cons_right)

lemmas js_eval =
  trim_def trimStart_def trimEnd_def isWhiteSpace_def toLowerCase_def lowerChar_def
  char_of_def bit_Suc_0_iff startsWith_def endsWith_def suffix_to_prefix orElse_def

section \<open>Scope resolution\<close>

lemma busFailure_phrases:
  "busFailure t \<longleftrightarrow>
     sublist ''failed to connect'' t \<or> sublist ''not been booted'' t \<or>
     sublist ''no such file or directory'' t \<or> sublist ''not supported'' t"
  by (simp only: busFailure_def includes_str_sublist)

lemma resolve_cached:
  "cachedScopeArgs w = Some r \<Longrightarrow> resolveSystemctlScopeArgs h w = (r, w)"
  by (simp add: resolveSystemctlScopeArgs_def)

lemma resolve_caches:
  "resolveSystemctlScopeArgs h w = (r, w1) \<Longrightarrow> cachedScopeArgs w1 = Some r"
  by (auto simp: resolveSystemctlScopeArgs_def execSystemctl_def Let_def
           split: option.splits if_splits)

lemma resolveMany_cached:
  "cachedScopeArgs w = Some r \<Longrightarrow> resolveMany hs w = (replicate (length hs) r, w)"
  by (induction hs) (simp_all add: resolve_cached)

text \<open>
  C4. With nothing cached and no explicit override (the trimmed, lower-cased value of
  \<open>OPENCLAW_SYSTEMD_SCOPE\<close> is neither \<open>system\<close> nor \<open>user\<close>, or the variable is unset),
  the resolver invokes \<open>systemctl --user status\<close> once. Exit code 0 gives the user
  session. A non-zero exit gives the system-wide scope exactly when the lower-cased text
  \<open>stderr + " " + stdout\<close> contains one of the four phrases, and the user session
  otherwise.
\<close>

theorem scope_autodetect:
  assumes "cachedScopeArgs w = None"
    and "\<forall>v. processEnv h ''OPENCLAW_SYSTEMD_SCOPE'' = Some v \<longrightarrow>
           toLowerCase (trim v) \<noteq> ''system'' \<and> toLowerCase (trim v) \<noteq> ''user''"
  shows "(let probe = systemctl h (calls w) [''--user'', ''status''];
              t = toLowerCase (stderr probe @ '' '' @ stdout probe)
          in fst (resolveSystemctlScopeArgs h w) =
               (if code probe = 0 then UserSession
                else if sublist ''failed to connect'' t \<or> sublist ''not been booted'' t \<or>
                        sublist ''no such file or directory'' t \<or> sublist ''not supported'' t
                     then SystemWide
                     else UserSession)
             \<and> calls (snd (resolveSystemctlScopeArgs h w)) = calls w @ [[''--user'', ''status'']])"
proof (cases "processEnv h ''OPENCLAW_SYSTEMD_SCOPE''")
  case None
  with assms(1) show ?thesis
    by (simp add: resolveSystemctlScopeArgs_def execSystemctl_def Let_def
                  busFailure_phrases UserSession_def SystemWide_def)
next
  case (Some v)
  with assms(2) have "toLowerCase (trim v) \<noteq> ''system''" "toLowerCase (trim v) \<noteq> ''user''"
    by simp_all
  with assms(1) Some show ?thesis
    by (simp add: resolveSystemctlScopeArgs_def execSystemctl_def Let_def
                  busFailure_phrases UserSession_def SystemWide_def)
qed

theorem scope_autodetect_witness:
  "(let h = \<lparr>systemctl = (\<lambda>_ _. \<lparr>stdout = [], stderr = ''Failed to connect to bus: No medium found'', code = 1\<rparr>),
             processEnv = [''OPENCLAW_SYSTEMD_SCOPE'' \<mapsto> ''auto''], fsRejects = (\<lambda>_ _. False)\<rparr>;
        w = \<lparr>cachedScopeArgs = None, calls = [], files = Map.empty, written = []\<rparr>
    in cachedScopeArgs w = None
       \<and> toLowerCase (trim ''auto'') \<noteq> ''system'' \<and> toLowerCase (trim ''auto'') \<noteq> ''user''
       \<and> fst (resolveSystemctlScopeArgs h w) = SystemWide
       \<and> calls (snd (resolveSystemctlScopeArgs h w)) = [[''--user'', ''status'']])"
  using scope_autodetect
    [of "\<lparr>cachedScopeArgs = None, calls = [], files = Map.empty, written = []\<rparr>"
        "\<lparr>systemctl = (\<lambda>_ _. \<lparr>stdout = [], stderr = ''Failed to connect to bus: No medium found'', code = 1\<rparr>),
          processEnv = [''OPENCLAW_SYSTEMD_SCOPE'' \<mapsto> ''auto''], fsRejects = (\<lambda>_ _. False)\<rparr>"]
  by (simp add: js_eval Let_def SystemWide_def UserSession_def includes_str_sublist [symmetric])

text \<open>
  C5. Whatever the first call returned and left behind, every later call in the same
  process returns the same decision and leaves the world as it was: no further
  \<open>systemctl\<close> invocation is made, whatever the later environment and the later
  answers of the manager (\<open>hs\<close> is arbitrary). When nothing was cached, an explicit
  override \<open>system\<close> or \<open>user\<close> decides the first call without any invocation, and
  the decision is cached like a detected one.
\<close>

theorem scope_cached:
  assumes "resolveSystemctlScopeArgs h1 w = (r, w1)"
  shows "resolveSystemctlScopeArgs h2 w1 = (r, w1)
       \<and> resolveMany hs w1 = (replicate (length hs) r, w1)
       \<and> cachedScopeArgs w1 = Some r
       \<and> (cachedScopeArgs w = None \<longrightarrow>
            (map_option (\<lambda>v. toLowerCase (trim v)) (processEnv h1 ''OPENCLAW_SYSTEMD_SCOPE'') = Some ''system''
               \<longrightarrow> r = SystemWide \<and> calls w1 = calls w)
          \<and> (map_option (\<lambda>v. toLowerCase (trim v)) (processEnv h1 ''OPENCLAW_SYSTEMD_SCOPE'') = Some ''user''
               \<longrightarrow> r = UserSession \<and> calls w1 = calls w))"
proof -
  have c: "cachedScopeArgs w1 = Some r"
    using assms by (rule resolve_caches)
  have ov: "cachedScopeArgs w = None \<longrightarrow>
            (map_option (\<lambda>v. toLowerCase (trim v)) (processEnv h1 ''OPENCLAW_SYSTEMD_SCOPE'') = Some ''system''
               \<longrightarrow> r = SystemWide \<and> calls w1 = calls w)
          \<and> (map_option (\<lambda>v. toLowerCase (trim v)) (processEnv h1 ''OPENCLAW_SYSTEMD_SCOPE'') = Some ''user''
               \<longrightarrow> r = UserSession \<and> calls w1 = calls w)"
    using assms
    by (auto simp: resolveSystemctlScopeArgs_def Let_def SystemWide_def UserSession_def)
  show ?thesis
    using c ov by (simp add: resolve_cached resolveMany_cached)
qed

theorem scope_cached_witness:
  "(let h1 = \<lparr>systemctl = (\<lambda>_ _. \<lparr>stdout = [], stderr = [], code = 0\<rparr>),
              processEnv = [''OPENCLAW_SYSTEMD_SCOPE'' \<mapsto> '' System ''], fsRejects = (\<lambda>_ _. False)\<rparr>;
        h2 = \<lparr>systemctl = (\<lambda>_ _. \<lparr>stdout = [], stderr = [], code = 0\<rparr>),
              processEnv = [''OPENCLAW_SYSTEMD_SCOPE'' \<mapsto> ''user''], fsRejects = (\<lambda>_ _. False)\<rparr>;
        w = \<lparr>cachedScopeArgs = None, calls = [], files = Map.empty, written = []\<rparr>;
        w1 = \<lparr>cachedScopeArgs = Some [], calls = [], files = Map.empty, written = []\<rparr>
    in resolveSystemctlScopeArgs h1 w = (SystemWide, w1)
       \<and> resolveSystemctlScopeArgs h2 w1 = (SystemWide, w1)
       \<and> resolveMany [h2, h1, h2] w1 = ([SystemWide, SystemWide, SystemWide], w1))"
proof -
  let ?h1 = "\<lparr>systemctl = (\<lambda>_ _. \<lparr>stdout = [], stderr = [], code = (0::int)\<rparr>),
              processEnv = [''OPENCLAW_SYSTEMD_SCOPE'' \<mapsto> '' System ''], fsRejects = (\<lambda>_ _. False)\<rparr>"
  let ?h2 = "\<lparr>systemctl = (\<lambda>_ _. \<lparr>stdout = [], stderr = [], code = (0::int)\<rparr>),
              processEnv = [''OPENCLAW_SYSTEMD_SCOPE'' \<mapsto> ''user''], fsRejects = (\<lambda>_ _. False)\<rparr>"
  let ?w = "\<lparr>cachedScopeArgs = None, calls = [], files = Map.empty, written = []\<rparr>"
  let ?w1 = "\<lparr>cachedScopeArgs = Some [], calls = [], files = Map.empty, written = []\<rparr>"
  have first: "resolveSystemctlScopeArgs ?h1 ?w = (SystemWide, ?w1)"
    by (simp add: resolveSystemctlScopeArgs_def js_eval SystemWide_def)
  have again: "resolveSystemctlScopeArgs ?h2 ?w1 = (SystemWide, ?w1)"
    using scope_cached [OF first, of ?h2 "[]"] by (rule conjunct1)
  have rep: "replicate (length [?h2, ?h1, ?h2]) SystemWide = [SystemWide, SystemWide, SystemWide]"
    by simp
  have many: "resolveMany [?h2, ?h1, ?h2] ?w1 = ([SystemWide, SystemWide, SystemWide], ?w1)"
    using scope_cached [OF first, of ?h2 "[?h2, ?h1, ?h2]"]
    unfolding rep by (elim conjE)
  show ?thesis
    unfolding Let_def by (intro conjI first again many)
qed

section \<open>Manager invocations: what they change and what they leave\<close>

lemma scoped_cached:
  "cachedScopeArgs w = Some sc \<Longrightarrow>
   scopedSystemctl h args w = (systemctl h (calls w) (sc @ args), w\<lparr>calls := calls w @ [sc @ args]\<rparr>)"
  by (simp add: scopedSystemctl_def resolve_cached execSystemctl_def)

lemma resolve_frame:
  "resolveSystemctlScopeArgs h w = (r, w1) \<Longrightarrow> files w1 = files w \<and> written w1 = written w"
  by (auto simp: resolveSystemctlScopeArgs_def execSystemctl_def Let_def
           split: option.splits if_splits)

lemma scoped_frame:
  assumes "scopedSystemctl h args w = (res, w1)"
  shows "files w1 = files w \<and> written w1 = written w \<and> (\<exists>sc. cachedScopeArgs w1 = Some sc)"
proof -
  obtain sc w0 where r: "resolveSystemctlScopeArgs h w = (sc, w0)"
    by (cases "resolveSystemctlScopeArgs h w")
  from resolve_frame [OF r] resolve_caches [OF r] assms r show ?thesis
    by (auto simp: scopedSystemctl_def execSystemctl_def)
qed

lemma assert_frame:
  assumes "assertSystemdAvailable h w = (r, w1)"
  shows "files w1 = files w \<and> written w1 = written w \<and> (\<exists>sc. cachedScopeArgs w1 = Some sc)"
proof -
  obtain sc w0 where r: "resolveSystemctlScopeArgs h w = (sc, w0)"
    by (cases "resolveSystemctlScopeArgs h w")
  obtain res w2 where s: "scopedSystemctl h [''status''] w0 = (res, w2)"
    by (cases "scopedSystemctl h [''status''] w0")
  from assms r s have "w1 = w2"
    by (auto simp: assertSystemdAvailable_def Let_def split: if_splits)
  with resolve_frame [OF r] scoped_frame [OF s] show ?thesis by simp
qed

lemma activate_steps:
  assumes "cachedScopeArgs w = Some sc"
  shows "activateUnit h u w =
     (let c1 = sc @ [''daemon-reload''];
          c2 = sc @ [''enable'', u];
          c3 = sc @ [''restart'', u];
          r1 = systemctl h (calls w) c1;
          r2 = systemctl h (calls w @ [c1]) c2;
          r3 = systemctl h (calls w @ [c1, c2]) c3
      in if code r1 \<noteq> 0 then (Inl (stepFailed ''daemon-reload'' r1), w\<lparr>calls := calls w @ [c1]\<rparr>)
         else if code r2 \<noteq> 0 then (Inl (stepFailed ''enable'' r2), w\<lparr>calls := calls w @ [c1, c2]\<rparr>)
         else if code r3 \<noteq> 0 then (Inl (stepFailed ''restart'' r3), w\<lparr>calls := calls w @ [c1, c2, c3]\<rparr>)
         else (Inr (), w\<lparr>calls := calls w @ [c1, c2, c3]\<rparr>))"
  using assms by (simp add: activateUnit_def scoped_cached Let_def)

lemma backup_frame:
  "backupUnit h p w = (b, w1) \<Longrightarrow>
   cachedScopeArgs w1 = cachedScopeArgs w \<and> calls w1 = calls w \<and> written w1 = written w"
  by (auto simp: backupUnit_def split: option.splits if_splits)

section \<open>The order of the install steps\<close>

text \<open>
  C7. Once the availability check has passed and the unit file is written (neither
  \<open>mkdir\<close> nor \<open>writeFile\<close> rejects), install invokes the manager with
  \<open>daemon-reload\<close>, then \<open>enable\<close>, then \<open>restart\<close>, under the cached scope. The
  first step that exits non-zero ends the sequence: install fails with
  \<open>systemctl <step> failed: \<close> followed by that step's \<open>stderr\<close>, or its
  \<open>stdout\<close> when \<open>stderr\<close> is empty (the message trimmed); the invocations made are
  exactly the steps up to the failing one; and the unit file written stays on disk.
\<close>

theorem install_step_order:
  assumes avail: "assertSystemdAvailable h w = (Inr (), w1)"
    and mk: "\<not> fsRejects h ''mkdir'' (pathDirname d (resolveSystemdUnitPath d e))"
    and wr: "\<not> fsRejects h ''writeFile'' (resolveSystemdUnitPath d e)"
  shows "\<exists>sc. cachedScopeArgs w1 = Some sc \<and>
     (let path = resolveSystemdUnitPath d e;
          unit = buildSystemdUnit d (resolveGatewayServiceDescription d e envVars description) args wd envVars;
          unitName = resolveGatewaySystemdServiceName d (e ''OPENCLAW_PROFILE'') @ ''.service'';
          c1 = sc @ [''daemon-reload''];
          c2 = sc @ [''enable'', unitName];
          c3 = sc @ [''restart'', unitName];
          r1 = systemctl h (calls w1) c1;
          r2 = systemctl h (calls w1 @ [c1]) c2;
          r3 = systemctl h (calls w1 @ [c1, c2]) c3;
          (result, w') = installSystemdService d h e args wd envVars description w
      in files w' path = Some unit \<and>
         (if code r1 \<noteq> 0 then
            result = Inl (Error (trim (''systemctl daemon-reload failed: '' @ orElse (stderr r1) (stdout r1))))
            \<and> calls w' = calls w1 @ [c1]
          else if code r2 \<noteq> 0 then
            result = Inl (Error (trim (''systemctl enable failed: '' @ orElse (stderr r2) (stdout r2))))
            \<and> calls w' = calls w1 @ [c1, c2]
          else if code r3 \<noteq> 0 then
            result = Inl (Error (trim (''systemctl restart failed: '' @ orElse (stderr r3) (stdout r3))))
            \<and> calls w' = calls w1 @ [c1, c2, c3]
          else result = Inr path \<and> calls w' = calls w1 @ [c1, c2, c3]))"
proof -
  from assert_frame [OF avail] obtain sc where sc: "cachedScopeArgs w1 = Some sc" by blast
  obtain b w2 where bk: "backupUnit h (resolveSystemdUnitPath d e) w1 = (b, w2)"
    by (cases "backupUnit h (resolveSystemdUnitPath d e) w1")
  from backup_frame [OF bk] sc
  have w2: "cachedScopeArgs w2 = Some sc" "calls w2 = calls w1" by simp_all
  let ?unit = "buildSystemdUnit d (resolveGatewayServiceDescription d e envVars description) args wd envVars"
  let ?w3 = "w2\<lparr>files := (files w2)(resolveSystemdUnitPath d e \<mapsto> ?unit)\<rparr>"
  have w3: "cachedScopeArgs ?w3 = Some sc" using w2 by simp
  show ?thesis
    using sc avail mk wr bk w2
    by (simp add: installSystemdService_def activate_steps [OF w3] Let_def stepFailed_def)
qed

lemmas model_eval =
  installSystemdService_def uninstallSystemdService_def runSystemdServiceAction_def
  restartSystemdService_def stopSystemdService_def isSystemdServiceEnabled_def
  readSystemdServiceRuntime_def showArgs_def parseSystemdShow_def truthy_def
  assertSystemdAvailable_def scopedSystemctl_def resolveSystemctlScopeArgs_def
  execSystemctl_def busFailure_def backupUnit_def activateUnit_def stepFailed_def
  fileExists_def isSystemctlAvailable_def findLegacySystemdUnits_def probeLegacyUnit_def
  resolveSystemdUnitPath_def resolveSystemdUnitPathForName_def resolveSystemdServiceName_def
  readSystemdServiceExecStart_def readFile_def decodeUnit_def scanLine_def assignProperty_def
  exampleDeps_def constantHost_def freshWorld_def LF_def DQUOTE_def SQUOTE_def BACKSLASH_def
  buildSystemdUnitSpec_def unitLines_def envLine_def quoteArg_def needsQuoting_def
  parseSystemdExecStartSpec_def parseSystemdEnvAssignmentSpec_def parseKeyValueOutputSpec_def
  parseInt10_def leadingDigits_def stripSign_def isDigit_def digitsValue_def toDouble_def
  UserSession_def SystemWide_def Let_def

theorem install_step_order_witness:
  "(let h = \<lparr>systemctl = (\<lambda>history args.
                 if ''enable'' \<in> set args
                 then \<lparr>stdout = [], stderr = ''Failed to enable unit: Unit file openclaw-gateway.service does not exist.'', code = 1\<rparr>
                 else \<lparr>stdout = [], stderr = [], code = 0\<rparr>),
             processEnv = Map.empty, fsRejects = (\<lambda>op path. False)\<rparr>;
        e = [''HOME'' \<mapsto> ''/home/u''];
        w = freshWorld Map.empty;
        w1 = w\<lparr>cachedScopeArgs := Some [''--user''], calls := [[''--user'', ''status''], [''--user'', ''status'']]\<rparr>;
        (result, w') = installSystemdService exampleDeps h e [''/usr/bin/node'', ''server.js''] None None None w
    in assertSystemdAvailable h w = (Inr (), w1)
       \<and> \<not> fsRejects h ''mkdir'' (pathDirname exampleDeps (resolveSystemdUnitPath exampleDeps e))
       \<and> \<not> fsRejects h ''writeFile'' (resolveSystemdUnitPath exampleDeps e)
       \<and> result = Inl (Error ''systemctl enable failed: Failed to enable unit: Unit file openclaw-gateway.service does not exist.'')
       \<and> calls w' = [[''--user'', ''status''], [''--user'', ''status''], [''--user'', ''daemon-reload''],
                       [''--user'', ''enable'', ''openclaw-gateway.service'']]
       \<and> files w' ''/home/u/.config/systemd/user/openclaw-gateway.service'' =
             Some (''Description=OpenClaw Gateway'' @ [LF] @ ''ExecStart=/usr/bin/node server.js''))"
proof -
  let ?h = "\<lparr>systemctl = (\<lambda>history args.
                 if ''enable'' \<in> set args
                 then \<lparr>stdout = [], stderr = ''Failed to enable unit: Unit file openclaw-gateway.service does not exist.'', code = (1::int)\<rparr>
                 else \<lparr>stdout = [], stderr = [], code = 0\<rparr>),
             processEnv = Map.empty, fsRejects = (\<lambda>op path. False)\<rparr>"
  let ?e = "[''HOME'' \<mapsto> ''/home/u'']"
  let ?w = "freshWorld Map.empty"
  let ?w1 = "?w\<lparr>cachedScopeArgs := Some [''--user''], calls := [[''--user'', ''status''], [''--user'', ''status'']]\<rparr>"
  have avail: "assertSystemdAvailable ?h ?w = (Inr (), ?w1)"
    by (simp add: model_eval js_eval)
  have mk: "\<not> fsRejects ?h ''mkdir'' (pathDirname exampleDeps (resolveSystemdUnitPath exampleDeps ?e))"
    by simp
  have wr: "\<not> fsRejects ?h ''writeFile'' (resolveSystemdUnitPath exampleDeps ?e)"
    by simp
  from install_step_order [OF avail mk wr, where args = "[''/usr/bin/node'', ''server.js'']"
      and wd = None and envVars = None and description = None]
  show ?thesis
    by (simp add: model_eval js_eval)
qed

section \<open>The runtime status: failures and the status mapping\<close>

lemma toLowerCase_empty: "toLowerCase v = [] \<longleftrightarrow> v = []"
  by (simp add: toLowerCase_def)

text \<open>
  C6. The runtime query turns every failure of the manager into a status value. When the
  availability check throws, the result is \<open>unknown\<close> with the error's string as
  detail. When the check passes and \<open>systemctl show\<close> exits non-zero, let the error text
  be \<open>stderr\<close> (or \<open>stdout\<close> when \<open>stderr\<close> is empty), trimmed: if its lower-cased
  form contains \<open>not found\<close> the result is \<open>stopped\<close> with \<open>missingUnit\<close> true, otherwise
  \<open>unknown\<close> with \<open>missingUnit\<close> false; the detail is the error text, left out when
  it is empty.
\<close>

theorem runtime_manager_failure:
  "(case assertSystemdAvailable h w of
      (Inl err, w1) \<Rightarrow>
        readSystemdServiceRuntime d h e w =
          (\<lparr>status = Unknown, state = None, subState' = None, pid = None, lastExitStatus = None,
            lastExitReason = None, detail = Some (errorString err), missingUnit = None\<rparr>, w1)
    | (Inr ok, w1) \<Rightarrow>
        (case scopedSystemctl h (showArgs (resolveSystemdServiceName d e @ ''.service'')) w1 of
           (res, w2) \<Rightarrow>
             code res \<noteq> 0 \<longrightarrow>
             (let t = trim (orElse (stderr res) (stdout res));
                  missing = sublist ''not found'' (toLowerCase t)
              in readSystemdServiceRuntime d h e w =
                   (\<lparr>status = (if missing then Stopped else Unknown), state = None, subState' = None,
                     pid = None, lastExitStatus = None, lastExitReason = None,
                     detail = (if t = [] then None else Some t), missingUnit = Some missing\<rparr>, w2))))"
  by (simp add: readSystemdServiceRuntime_def Let_def includes_str_sublist
           split: prod.splits sum.splits)

theorem runtime_manager_failure_witness:
  "(let h = \<lparr>systemctl = (\<lambda>history args.
                 if ''show'' \<in> set args
                 then \<lparr>stdout = [], stderr = ''Unit foo.service not found.\<newline>'', code = 4\<rparr>
                 else \<lparr>stdout = [], stderr = [], code = 0\<rparr>),
             processEnv = Map.empty, fsRejects = (\<lambda>op path. False)\<rparr>;
        e = [''OPENCLAW_SYSTEMD_UNIT'' \<mapsto> ''foo.service''];
        w1 = \<lparr>cachedScopeArgs = Some [''--user''],
              calls = [[''--user'', ''status''], [''--user'', ''status'']],
              files = Map.empty, written = []\<rparr>
    in assertSystemdAvailable h (freshWorld Map.empty) = (Inr (), w1)
       \<and> code (fst (scopedSystemctl h (showArgs (resolveSystemdServiceName exampleDeps e @ ''.service'')) w1)) \<noteq> 0
       \<and> fst (readSystemdServiceRuntime exampleDeps h e (freshWorld Map.empty)) =
           \<lparr>status = Stopped, state = None, subState' = None, pid = None, lastExitStatus = None,
            lastExitReason = None, detail = Some ''Unit foo.service not found.'', missingUnit = Some True\<rparr>)"
proof -
  let ?h = "\<lparr>systemctl = (\<lambda>history args.
                 if ''show'' \<in> set args
                 then \<lparr>stdout = [], stderr = ''Unit foo.service not found.\<newline>'', code = (4::int)\<rparr>
                 else \<lparr>stdout = [], stderr = [], code = 0\<rparr>),
             processEnv = Map.empty, fsRejects = (\<lambda>op path. False)\<rparr>"
  let ?e = "[''OPENCLAW_SYSTEMD_UNIT'' \<mapsto> ''foo.service'']"
  let ?w1 = "\<lparr>cachedScopeArgs = Some [''--user''],
              calls = [[''--user'', ''status''], [''--user'', ''status'']],
              files = Map.empty, written = []\<rparr>"
  let ?res = "\<lparr>stdout = [], stderr = ''Unit foo.service not found.\<newline>'', code = (4::int)\<rparr>"
  let ?w2 = "?w1\<lparr>calls := calls ?w1 @ [[''--user''] @ showArgs ''foo.service'']\<rparr>"
  have nm: "resolveSystemdServiceName exampleDeps ?e = ''foo''"
    by (simp add: resolveSystemdServiceName_def js_eval)
  have a: "assertSystemdAvailable ?h (freshWorld Map.empty) = (Inr (), ?w1)"
    by (simp add: assertSystemdAvailable_def scopedSystemctl_def resolveSystemctlScopeArgs_def
                  execSystemctl_def freshWorld_def Let_def)
  have s: "scopedSystemctl ?h (showArgs (resolveSystemdServiceName exampleDeps ?e @ ''.service'')) ?w1 = (?res, ?w2)"
    unfolding nm by (simp add: scoped_cached showArgs_def)
  have t: "trim (orElse (stderr ?res) (stdout ?res)) = ''Unit foo.service not found.''"
    by (simp add: js_eval LF_def)
  have l: "toLowerCase ''Unit foo.service not found.'' = ''unit foo.service not found.''"
    by (simp add: js_eval)
  have m: "sublist ''not found'' ''unit foo.service not found.''"
    by (simp add: includes_str_sublist [symmetric])
  from runtime_manager_failure
    [where h = ?h and w = "freshWorld Map.empty" and d = exampleDeps and e = ?e]
  have "readSystemdServiceRuntime exampleDeps ?h ?e (freshWorld Map.empty) =
          (\<lparr>status = Stopped, state = None, subState' = None, pid = None, lastExitStatus = None,
            lastExitReason = None, detail = Some ''Unit foo.service not found.'', missingUnit = Some True\<rparr>, ?w2)"
    unfolding a s prod.case sum.case Let_def t l using m by simp
  with a s show ?thesis
    unfolding Let_def by simp
qed

text \<open>
  C2. When the availability check passes and \<open>systemctl show\<close> exits with 0, the status
  follows from the raw \<open>ActiveState\<close> entry of the parsed output alone: absent or empty
  gives \<open>unknown\<close>; a value whose lower-cased form is \<open>active\<close> gives \<open>running\<close>; every
  other non-empty value gives \<open>stopped\<close>. The raw state and sub-state are passed on, and
  \<open>pid\<close>, \<open>lastExitStatus\<close> and \<open>lastExitReason\<close> are the parsed \<open>MainPID\<close>,
  \<open>ExecMainStatus\<close> and \<open>ExecMainCode\<close>.
\<close>

theorem runtime_status_mapping:
  assumes "assertSystemdAvailable h w = (Inr ok, w1)"
    and "scopedSystemctl h (showArgs (resolveSystemdServiceName d e @ ''.service'')) w1 = (res, w2)"
    and "code res = 0"
  shows "(let r = fst (readSystemdServiceRuntime d h e w);
              parsed = parseSystemdShow d (stdout res)
          in status r =
               (case parseKeyValueOutput d (stdout res) ''='' ''activestate'' of
                  None \<Rightarrow> Unknown
                | Some v \<Rightarrow>
                    if v = [] then Unknown
                    else if toLowerCase v = ''active'' then Running
                    else Stopped)
             \<and> state r = truthy (parseKeyValueOutput d (stdout res) ''='' ''activestate'')
             \<and> subState' r = subState parsed
             \<and> pid r = mainPid parsed
             \<and> lastExitStatus r = execMainStatus parsed
             \<and> lastExitReason r = execMainCode parsed
             \<and> detail r = None \<and> missingUnit r = None)"
  using assms
  by (simp add: readSystemdServiceRuntime_def parseSystemdShow_def truthy_def Let_def
                toLowerCase_empty
           split: option.splits)

theorem runtime_status_mapping_witness:
  "(let h = constantHost
              \<lparr>stdout = ''ActiveState=active\<newline>SubState=running\<newline>MainPID=4821\<newline>ExecMainStatus=0\<newline>ExecMainCode=exited'',
               stderr = [], code = 0\<rparr>;
        w1 = \<lparr>cachedScopeArgs = Some [''--user''],
              calls = [[''--user'', ''status''], [''--user'', ''status'']],
              files = Map.empty, written = []\<rparr>
    in assertSystemdAvailable h (freshWorld Map.empty) = (Inr (), w1)
       \<and> code (fst (scopedSystemctl h (showArgs (resolveSystemdServiceName exampleDeps Map.empty @ ''.service'')) w1)) = 0
       \<and> fst (readSystemdServiceRuntime exampleDeps h Map.empty (freshWorld Map.empty)) =
           \<lparr>status = Running, state = Some ''active'', subState' = Some ''running'', pid = Some 4821,
            lastExitStatus = Some 0, lastExitReason = Some ''exited'', detail = None, missingUnit = None\<rparr>)"
proof -
  let ?out = "''ActiveState=active\<newline>SubState=running\<newline>MainPID=4821\<newline>ExecMainStatus=0\<newline>ExecMainCode=exited''"
  let ?res = "\<lparr>stdout = ?out, stderr = [], code = (0::int)\<rparr>"
  let ?h = "constantHost ?res"
  let ?w1 = "\<lparr>cachedScopeArgs = Some [''--user''],
              calls = [[''--user'', ''status''], [''--user'', ''status'']],
              files = Map.empty, written = []\<rparr>"
  let ?unit = "resolveSystemdServiceName exampleDeps Map.empty @ ''.service''"
  let ?w2 = "?w1\<lparr>calls := calls ?w1 @ [[''--user''] @ showArgs ?unit]\<rparr>"
  have a: "assertSystemdAvailable ?h (freshWorld Map.empty) = (Inr (), ?w1)"
    by (simp add: assertSystemdAvailable_def scopedSystemctl_def resolveSystemctlScopeArgs_def
                  execSystemctl_def freshWorld_def constantHost_def Let_def)
  have s: "scopedSystemctl ?h (showArgs ?unit) ?w1 = (?res, ?w2)"
    by (simp add: scoped_cached constantHost_def)
  have c: "code ?res = 0" by simp
  have kv: "parseKeyValueOutput exampleDeps ?out ''='' =
              [''activestate'' \<mapsto> ''active'', ''substate'' \<mapsto> ''running'', ''mainpid'' \<mapsto> ''4821'',
               ''execmainstatus'' \<mapsto> ''0'', ''execmaincode'' \<mapsto> ''exited'']"
    by (simp add: exampleDeps_def parseKeyValueOutputSpec_def LF_def js_eval)
  have n1: "parseInt10 ''4821'' = Num 4821" and n2: "parseInt10 ''0'' = Num 0"
    by (simp_all add: parseInt10_def leadingDigits_def stripSign_def isDigit_def digitsValue_def
                      toDouble_def js_eval)
  have p: "parseSystemdShow exampleDeps ?out =
             \<lparr>activeState = Some ''active'', subState = Some ''running'', mainPid = Some 4821,
              execMainStatus = Some 0, execMainCode = Some ''exited''\<rparr>"
    unfolding parseSystemdShow_def kv Let_def by (simp add: truthy_def n1 n2)
  have lo: "toLowerCase ''active'' = ''active''" by (simp add: js_eval)
  from runtime_status_mapping [OF a s c]
  have "fst (readSystemdServiceRuntime exampleDeps ?h Map.empty (freshWorld Map.empty)) =
           \<lparr>status = Running, state = Some ''active'', subState' = Some ''running'', pid = Some 4821,
            lastExitStatus = Some 0, lastExitReason = Some ''exited'', detail = None, missingUnit = None\<rparr>"
    unfolding Let_def by (simp add: p kv lo truthy_def)
  with a s show ?thesis
    unfolding Let_def by simp
qed

section \<open>Legacy discovery\<close>






section \<open>Reading a missing, unreadable or unmanaged unit file\<close>

lemma scanLine_keeps_execStart:
  "\<not> startsWith (trim l) ''ExecStart='' \<Longrightarrow> scanLine d st l = Returns st' \<Longrightarrow>
   execStart st' = execStart st"
  by (auto simp: scanLine_def Let_def split: if_splits outcome.splits option.splits)

lemma scanLines_keeps_execStart:
  "\<forall>l \<in> set ls. \<not> startsWith (trim l) ''ExecStart='' \<Longrightarrow> scanLines d st ls = Returns st' \<Longrightarrow>
   execStart st' = execStart st"
proof (induction ls arbitrary: st)
  case Nil
  then show ?case by simp
next
  case (Cons l ls)
  from Cons.prems(2) obtain st1 where s1: "scanLine d st l = Returns st1"
    and rest: "scanLines d st1 ls = Returns st'"
    by (auto split: outcome.splits)
  from Cons.prems(1) s1 have "execStart st1 = execStart st"
    by (auto dest: scanLine_keeps_execStart)
  moreover from Cons.IH [OF _ rest] Cons.prems(1) have "execStart st' = execStart st1"
    by simp
  ultimately show ?case by simp
qed

lemma decodeUnit_without_ExecStart:
  assumes "\<forall>l \<in> set (splitOn LF content). \<not> startsWith (trim l) ''ExecStart=''"
  shows "decodeUnit d p content = None"
proof (cases "scanLines d \<lparr>execStart = [], scanWorkingDirectory = [], scanEnvironment = []\<rparr>
               (splitOn LF content)")
  case Throws
  then show ?thesis by (simp add: decodeUnit_def)
next
  case (Returns st)
  from scanLines_keeps_execStart [OF assms Returns] have "execStart st = []" by simp
  with Returns show ?thesis by (simp add: decodeUnit_def)
qed

text \<open>
  C10. Reading the command of the installed unit gives \<open>null\<close> whenever
  \<open>fs.readFile\<close> rejects, be it because the file is missing or for any other reason,
  and gives the same \<open>null\<close> when the file is read and none of its lines, trimmed,
  starts with \<open>ExecStart=\<close>.
\<close>

theorem read_unit_null:
  "((files w (resolveSystemdUnitPath d e) = None \<or> fsRejects h ''readFile'' (resolveSystemdUnitPath d e))
      \<longrightarrow> readSystemdServiceExecStart d h w e = None)
   \<and> (\<forall>content.
         readFile h w (resolveSystemdUnitPath d e) = Some content
         \<and> (\<forall>l \<in> set (splitOn LF content). \<not> startsWith (trim l) ''ExecStart='')
         \<longrightarrow> readSystemdServiceExecStart d h w e = None)"
  by (auto simp: readSystemdServiceExecStart_def readFile_def Let_def decodeUnit_without_ExecStart
           split: if_splits)

theorem read_unit_null_witness:
  "(let e = [''HOME'' \<mapsto> ''/home/u''];
        path = ''/home/u/.config/systemd/user/openclaw-gateway.service'';
        content = ''[Unit]\<newline>Description=not ours\<newline># ExecStart=/bin/false\<newline>'';
        h = constantHost \<lparr>stdout = [], stderr = [], code = 0\<rparr>
    in resolveSystemdUnitPath exampleDeps e = path
       \<and> readSystemdServiceExecStart exampleDeps h (freshWorld Map.empty) e = None
       \<and> readSystemdServiceExecStart exampleDeps (h\<lparr>fsRejects := (\<lambda>op p. op = ''readFile'')\<rparr>)
             (freshWorld [path \<mapsto> ''ExecStart=/usr/bin/node'']) e = None
       \<and> readFile h (freshWorld [path \<mapsto> content]) path = Some content
       \<and> list_all (\<lambda>l. \<not> startsWith (trim l) ''ExecStart='') (splitOn LF content)
       \<and> readSystemdServiceExecStart exampleDeps h (freshWorld [path \<mapsto> content]) e = None
       \<and> readSystemdServiceExecStart exampleDeps h (freshWorld [path \<mapsto> ''ExecStart=/usr/bin/node'']) e \<noteq> None)"
proof -
  let ?e = "[''HOME'' \<mapsto> ''/home/u'']"
  let ?path = "''/home/u/.config/systemd/user/openclaw-gateway.service''"
  let ?content = "''[Unit]\<newline>Description=not ours\<newline># ExecStart=/bin/false\<newline>''"
  let ?h = "constantHost \<lparr>stdout = [], stderr = [], code = 0\<rparr>"
  have p: "resolveSystemdUnitPath exampleDeps ?e = ?path"
    by (simp add: resolveSystemdUnitPath_def resolveSystemdUnitPathForName_def
                  resolveSystemdServiceName_def exampleDeps_def)
  have r: "readFile ?h (freshWorld [?path \<mapsto> ?content]) ?path = Some ?content"
    by (simp add: readFile_def constantHost_def freshWorld_def)
  have ls: "list_all (\<lambda>l. \<not> startsWith (trim l) ''ExecStart='') (splitOn LF ?content)"
    by (simp add: LF_def js_eval)
  note T = read_unit_null [where d = exampleDeps and e = ?e, unfolded p]
  have missing: "readSystemdServiceExecStart exampleDeps ?h (freshWorld Map.empty) ?e = None"
    using T [where h = ?h and w = "freshWorld Map.empty"] by (simp add: freshWorld_def)
  have rejected: "readSystemdServiceExecStart exampleDeps (?h\<lparr>fsRejects := (\<lambda>op p. op = ''readFile'')\<rparr>)
             (freshWorld [?path \<mapsto> ''ExecStart=/usr/bin/node'']) ?e = None"
    using T [where h = "?h\<lparr>fsRejects := (\<lambda>op p. op = ''readFile'')\<rparr>"
               and w = "freshWorld [?path \<mapsto> ''ExecStart=/usr/bin/node'']"] by simp
  have unmanaged: "readSystemdServiceExecStart exampleDeps ?h (freshWorld [?path \<mapsto> ?content]) ?e = None"
    using T [where h = ?h and w = "freshWorld [?path \<mapsto> ?content]"] r ls
    by (simp add: list_all_iff)
  have managed: "readSystemdServiceExecStart exampleDeps ?h (freshWorld [?path \<mapsto> ''ExecStart=/usr/bin/node'']) ?e \<noteq> None"
    unfolding readSystemdServiceExecStart_def p
    by (simp add: readFile_def constantHost_def freshWorld_def decodeUnit_def scanLine_def
                  exampleDeps_def parseSystemdExecStartSpec_def LF_def js_eval)
  from p missing rejected r ls unmanaged managed show ?thesis
    unfolding Let_def by (intro conjI)
qed

section \<open>Numeric fields of the show output\<close>

lemma digitsValue_fold_bound:
  "list_all isDigit ds \<Longrightarrow>
   foldl (\<lambda>acc c. 10 * acc + (of_char c - 48)) (a::nat) ds < (a + 1) * 10 ^ length ds"
proof (induction ds arbitrary: a)
  case Nil
  then show ?case by simp
next
  case (Cons c ds)
  from Cons.prems have dc: "isDigit c" and ds: "list_all isDigit ds"
    by simp_all
  from dc have c: "(of_char c :: nat) - 48 \<le> 9"
    unfolding isDigit_def by linarith
  from Cons.IH [OF ds, of "10 * a + (of_char c - 48)"]
  have "foldl (\<lambda>acc c. 10 * acc + (of_char c - 48)) (10 * a + (of_char c - 48)) ds
          < (10 * a + (of_char c - 48) + 1) * 10 ^ length ds" .
  also have "\<dots> \<le> (10 * a + 10) * 10 ^ length ds"
    using c by (intro mult_right_mono) auto
  also have "\<dots> = (a + 1) * 10 ^ length (c # ds)"
    by (simp add: algebra_simps)
  finally show ?case by simp
qed

lemma digitsValue_bound: "list_all isDigit ds \<Longrightarrow> digitsValue ds < 10 ^ length ds"
  using digitsValue_fold_bound [of ds 0] by (simp add: digitsValue_def)

lemma digitsValue_exact:
  assumes "list_all isDigit ds" and "length ds \<le> 15"
  shows "toDouble (digitsValue ds) = Some (digitsValue ds)"
proof -
  have "digitsValue ds < 10 ^ length ds" using assms(1) by (rule digitsValue_bound)
  also have "(10::nat) ^ length ds \<le> 10 ^ 15"
    using assms(2) by (intro power_increasing) auto
  also have "(10::nat) ^ 15 < 2 ^ 53" by simp
  finally show ?thesis by (simp add: toDouble_def)
qed

lemma isDigit_not_space: "isDigit c \<Longrightarrow> \<not> isWhiteSpace c"
  by (auto simp: isDigit_def isWhiteSpace_def)

lemma isDigit_not_sign: "isDigit c \<Longrightarrow> c \<noteq> CHR ''-'' \<and> c \<noteq> CHR ''+''"
  by (auto simp: isDigit_def)

lemma leadingDigits_prefix:
  assumes "ds \<noteq> []" and "list_all isDigit ds" and "\<forall>c \<in> set (take 1 rest). \<not> isDigit c"
  shows "leadingDigits (ds @ rest) = ds" and "trimStart (ds @ rest) = ds @ rest"
proof -
  from assms(1) obtain c cs where ds: "ds = c # cs" by (cases ds) auto
  with assms(2) have c: "isDigit c" by simp
  show t: "trimStart (ds @ rest) = ds @ rest"
    using isDigit_not_space [OF c] by (simp add: trimStart_def ds)
  have s: "stripSign (ds @ rest) = ds @ rest"
    using isDigit_not_sign [OF c] by (simp add: stripSign_def ds)
  have "takeWhile isDigit (ds @ rest) = ds"
  proof (cases rest)
    case Nil
    with assms(2) show ?thesis by (simp add: list_all_iff)
  next
    case (Cons r rs)
    with assms(3) have "\<not> isDigit r" by simp
    with assms(2) Cons show ?thesis
      by (simp add: takeWhile_append2 list_all_iff)
  qed
  with t s show "leadingDigits (ds @ rest) = ds"
    by (simp add: leadingDigits_def)
qed

lemma parseInt10_prefix:
  assumes "ds \<noteq> []" and "list_all isDigit ds" and "length ds \<le> 15"
    and "\<forall>c \<in> set (take 1 rest). \<not> isDigit c"
  shows "parseInt10 (ds @ rest) = Num (int (digitsValue ds))"
proof -
  from assms(1) obtain c cs where ds: "ds = c # cs" by (cases ds) auto
  with assms(2) have "isDigit c" by simp
  then have "c \<noteq> CHR ''-''" by (simp add: isDigit_not_sign)
  with leadingDigits_prefix [OF assms(1,2,4)] digitsValue_exact [OF assms(2,3)] assms(1)
  show ?thesis
    by (simp add: parseInt10_def ds)
qed

lemma parseInt10_zero: "parseInt10 ''0'' = Num 0"
  by (simp add: parseInt10_def leadingDigits_def stripSign_def isDigit_def digitsValue_def
                toDouble_def js_eval)

lemma parseInt10_Num: "parseInt10 v = Num n \<Longrightarrow> leadingDigits v \<noteq> []"
  by (auto simp: parseInt10_def Let_def split: if_splits option.splits)

lemma parseInt10_NaN: "leadingDigits v = [] \<Longrightarrow> parseInt10 v = NaN"
  by (simp add: parseInt10_def)

text \<open>
  C8, as the code has it. \<open>MainPID\<close> and \<open>ExecMainStatus\<close> are read with
  \<open>Number.parseInt(value, 10)\<close>, which accepts an integer prefix: after leading
  white space and one optional sign, the longest run of decimal digits is the number and
  the rest of the value is ignored. A field is reported only when its entry has such a
  run, with the number \<open>parseInt\<close> gives; \<open>MainPID\<close> only when the number is
  positive. A field is left out, never set to zero, when its entry is absent or has no
  such run. \<open>ExecMainStatus=0\<close> is reported as 0 and \<open>MainPID=0\<close> is left out.
  A run of at most 15 digits at the start of the value is reported with its exact value,
  whatever non-digit text follows it.
\<close>

theorem show_numeric_fields:
  "(let entries = parseKeyValueOutput d out ''='';
        info = parseSystemdShow d out
    in (\<forall>n. execMainStatus info = Some n \<longrightarrow>
          (\<exists>v. entries ''execmainstatus'' = Some v \<and> leadingDigits v \<noteq> [] \<and> parseInt10 v = Num n))
       \<and> (\<forall>n. mainPid info = Some n \<longrightarrow>
          0 < n \<and> (\<exists>v. entries ''mainpid'' = Some v \<and> leadingDigits v \<noteq> [] \<and> parseInt10 v = Num n))
       \<and> (\<forall>v. entries ''execmainstatus'' = Some v \<and> leadingDigits v = [] \<longrightarrow> execMainStatus info = None)
       \<and> (\<forall>v. entries ''mainpid'' = Some v \<and> leadingDigits v = [] \<longrightarrow> mainPid info = None)
       \<and> (entries ''execmainstatus'' = None \<longrightarrow> execMainStatus info = None)
       \<and> (entries ''mainpid'' = None \<longrightarrow> mainPid info = None)
       \<and> (entries ''execmainstatus'' = Some ''0'' \<longrightarrow> execMainStatus info = Some 0)
       \<and> (entries ''mainpid'' = Some ''0'' \<longrightarrow> mainPid info = None)
       \<and> (\<forall>ds rest.
             entries ''execmainstatus'' = Some (ds @ rest) \<and> ds \<noteq> [] \<and> list_all isDigit ds
             \<and> length ds \<le> 15 \<and> (\<forall>c \<in> set (take 1 rest). \<not> isDigit c)
             \<longrightarrow> execMainStatus info = Some (int (digitsValue ds))))"
proof -
  let ?entries = "parseKeyValueOutput d out ''=''"
  let ?info = "parseSystemdShow d out"
  have st: "execMainStatus ?info =
              (case truthy (?entries ''execmainstatus'') of
                 None \<Rightarrow> None
               | Some v \<Rightarrow> (case parseInt10 v of Num n \<Rightarrow> Some n | _ \<Rightarrow> None))"
    by (simp add: parseSystemdShow_def Let_def)
  have pd: "mainPid ?info =
              (case truthy (?entries ''mainpid'') of
                 None \<Rightarrow> None
               | Some v \<Rightarrow> (case parseInt10 v of Num n \<Rightarrow> if n > 0 then Some n else None | _ \<Rightarrow> None))"
    by (simp add: parseSystemdShow_def Let_def)
  have a: "\<forall>n. execMainStatus ?info = Some n \<longrightarrow>
          (\<exists>v. ?entries ''execmainstatus'' = Some v \<and> leadingDigits v \<noteq> [] \<and> parseInt10 v = Num n)"
    unfolding st
    by (auto simp: truthy_def dest: parseInt10_Num split: option.splits if_splits jsnum.splits)
  have b: "\<forall>n. mainPid ?info = Some n \<longrightarrow>
          0 < n \<and> (\<exists>v. ?entries ''mainpid'' = Some v \<and> leadingDigits v \<noteq> [] \<and> parseInt10 v = Num n)"
    unfolding pd
    by (auto simp: truthy_def dest: parseInt10_Num split: option.splits if_splits jsnum.splits)
  have c: "\<forall>v. ?entries ''execmainstatus'' = Some v \<and> leadingDigits v = [] \<longrightarrow> execMainStatus ?info = None"
    unfolding st by (auto simp: truthy_def parseInt10_NaN)
  have c': "\<forall>v. ?entries ''mainpid'' = Some v \<and> leadingDigits v = [] \<longrightarrow> mainPid ?info = None"
    unfolding pd by (auto simp: truthy_def parseInt10_NaN)
  have e: "?entries ''execmainstatus'' = None \<longrightarrow> execMainStatus ?info = None"
    unfolding st by (simp add: truthy_def)
  have e': "?entries ''mainpid'' = None \<longrightarrow> mainPid ?info = None"
    unfolding pd by (simp add: truthy_def)
  have z: "?entries ''execmainstatus'' = Some ''0'' \<longrightarrow> execMainStatus ?info = Some 0"
    unfolding st by (simp add: truthy_def parseInt10_zero)
  have z': "?entries ''mainpid'' = Some ''0'' \<longrightarrow> mainPid ?info = None"
    unfolding pd by (simp add: truthy_def parseInt10_zero)
  have p: "\<forall>ds rest.
             ?entries ''execmainstatus'' = Some (ds @ rest) \<and> ds \<noteq> [] \<and> list_all isDigit ds
             \<and> length ds \<le> 15 \<and> (\<forall>c \<in> set (take 1 rest). \<not> isDigit c)
             \<longrightarrow> execMainStatus ?info = Some (int (digitsValue ds))"
    unfolding st by (auto simp: truthy_def parseInt10_prefix)
  from a b c c' e e' z z' p show ?thesis
    unfolding Let_def by (intro conjI)
qed

theorem show_numeric_fields_witness:
  "(let out = ''MainPID=0\<newline>ExecMainStatus=0'';
        out' = ''MainPID=4821 (node)\<newline>ExecMainStatus=n/a''
    in parseKeyValueOutput exampleDeps out ''='' ''execmainstatus'' = Some ''0''
       \<and> parseKeyValueOutput exampleDeps out ''='' ''mainpid'' = Some ''0''
       \<and> execMainStatus (parseSystemdShow exampleDeps out) = Some 0
       \<and> mainPid (parseSystemdShow exampleDeps out) = None
       \<and> parseKeyValueOutput exampleDeps out' ''='' ''execmainstatus'' = Some ''n/a''
       \<and> leadingDigits ''n/a'' = []
       \<and> execMainStatus (parseSystemdShow exampleDeps out') = None)"
proof -
  let ?out = "''MainPID=0\<newline>ExecMainStatus=0''"
  let ?out' = "''MainPID=4821 (node)\<newline>ExecMainStatus=n/a''"
  have kv: "parseKeyValueOutput exampleDeps ?out ''='' ''execmainstatus'' = Some ''0''"
           "parseKeyValueOutput exampleDeps ?out ''='' ''mainpid'' = Some ''0''"
    by (simp_all add: exampleDeps_def parseKeyValueOutputSpec_def LF_def js_eval)
  have kv': "parseKeyValueOutput exampleDeps ?out' ''='' ''execmainstatus'' = Some ''n/a''"
    by (simp add: exampleDeps_def parseKeyValueOutputSpec_def LF_def js_eval)
  have nd: "leadingDigits ''n/a'' = []"
    by (simp add: leadingDigits_def stripSign_def isDigit_def js_eval)
  note T = show_numeric_fields [where d = exampleDeps and out = ?out, unfolded Let_def]
  note T' = show_numeric_fields [where d = exampleDeps and out = ?out', unfolded Let_def]
  from T kv have z: "execMainStatus (parseSystemdShow exampleDeps ?out) = Some 0"
    and z': "mainPid (parseSystemdShow exampleDeps ?out) = None"
    by blast+
  from T' kv' nd have n: "execMainStatus (parseSystemdShow exampleDeps ?out') = None"
    by blast
  from kv kv' nd z z' n show ?thesis
    unfolding Let_def by (intro conjI)
qed

text \<open>
  The claim as it is written fails: \<open>12abc\<close> is no integer under strict validation,
  and is reported as exit status 12; \<open>4821 (node)\<close> is reported as process id 4821.
\<close>

theorem show_numeric_fields_not_strict:
  "\<not> strictInteger ''12abc''
   \<and> execMainStatus
        (parseSystemdShow
           (exampleDeps\<lparr>parseKeyValueOutput := (\<lambda>output sep. [''execmainstatus'' \<mapsto> ''12abc''])\<rparr>)
           ''ExecMainStatus=12abc'') = Some 12
   \<and> \<not> strictInteger ''4821 (node)''
   \<and> mainPid
        (parseSystemdShow
           (exampleDeps\<lparr>parseKeyValueOutput := (\<lambda>output sep. [''mainpid'' \<mapsto> ''4821 (node)''])\<rparr>)
           ''MainPID=4821 (node)'') = Some 4821"
  by (simp add: strictInteger_def stripSign_def isDigit_def parseSystemdShow_def truthy_def
                parseInt10_def leadingDigits_def digitsValue_def toDouble_def js_eval)

section \<open>Unit name and unit path under an override\<close>

text \<open>
  C3 does not hold. With \<open>OPENCLAW_SYSTEMD_UNIT=custom.service\<close> install writes
  \<open>custom.service\<close> and then enables and restarts the profile's unit, and uninstall
  disables the profile's unit and deletes \<open>custom.service\<close>; restart, on the same
  environment, acts on \<open>custom.service\<close>.
\<close>

theorem install_ignores_override:
  "(let h = constantHost \<lparr>stdout = [], stderr = [], code = 0\<rparr>;
        e = [''HOME'' \<mapsto> ''/home/u'', ''OPENCLAW_SYSTEMD_UNIT'' \<mapsto> ''custom.service''];
        path = ''/home/u/.config/systemd/user/custom.service'';
        scoped = (\<lambda>args. ''--user'' # args);
        probes = [scoped [''status''], scoped [''status'']];
        (installed, wi) = installSystemdService exampleDeps h e [''/usr/bin/node''] None None None (freshWorld Map.empty);
        (removed, wu) = uninstallSystemdService exampleDeps h e (freshWorld [path \<mapsto> ''ExecStart=/usr/bin/node'']);
        (restarted, wr) = restartSystemdService exampleDeps h e (freshWorld Map.empty)
    in resolveSystemdServiceName exampleDeps e = ''custom''
       \<and> resolveSystemdUnitPath exampleDeps e = path
       \<and> installed = Inr path
       \<and> files wi path \<noteq> None
       \<and> calls wi = probes @ [scoped [''daemon-reload''], scoped [''enable'', ''openclaw-gateway.service''],
                                scoped [''restart'', ''openclaw-gateway.service'']]
       \<and> removed = Inr ()
       \<and> files wu path = None
       \<and> calls wu = probes @ [scoped [''disable'', ''--now'', ''openclaw-gateway.service'']]
       \<and> restarted = Inr ()
       \<and> calls wr = probes @ [scoped [''restart'', ''custom.service'']])"
  by (simp add: model_eval js_eval)

section \<open>Trimming\<close>




section \<open>What the reader can return\<close>











section \<open>Encoding a command and reading it back\<close>




end
